theory Spec2Isabelle
  imports Main "HOL-Library.Word"
begin

unbundle bit_operations_syntax

section \<open>Data model\<close>

text \<open>
  A Go \<^verbatim>\<open>string\<close> is an immutable sequence of bytes; \<^verbatim>\<open>[]byte(s)\<close> and
  \<^verbatim>\<open>string(data)\<close> copy the bytes unchanged and \<^verbatim>\<open>len\<close> counts bytes. Strings and
  byte slices are therefore both lists of 8-bit words. A \<^verbatim>\<open>nil\<close> slice and an empty
  slice are both the empty list.
\<close>

type_synonym byte = "8 word"
type_synonym gostring = "byte list"

text \<open>
  \<^verbatim>\<open>time.Time\<close>, as far as this program looks at it: the wall-clock instant, given by
  the value of \<^verbatim>\<open>Unix()\<close> (an \<^verbatim>\<open>int64\<close>, read with \<open>sint\<close>) and the nanoseconds
  within that second. Monotonic clock readings and locations are not modelled: a loaded
  license gets its times from \<^verbatim>\<open>time.Unix\<close>, which sets neither.
\<close>

record Time =
  sec :: "64 word"
  nsec :: nat

definition Unix :: "Time \<Rightarrow> 64 word" where
  "Unix t = sec t"

definition time_Unix :: "64 word \<Rightarrow> nat \<Rightarrow> Time" where
  "time_Unix s n = \<lparr>sec = s, nsec = n\<rparr>"

text \<open>\<^verbatim>\<open>t.After(u)\<close> for times without monotonic reading.\<close>

definition After :: "Time \<Rightarrow> Time \<Rightarrow> bool" where
  "After t u = (sint (sec t) > sint (sec u) \<or> (sec t = sec u \<and> nsec t > nsec u))"

text \<open>
  \<^verbatim>\<open>licformat.HardwareBindingData\<close>, \<^verbatim>\<open>licformat.HardwareBinding\<close> and
  \<^verbatim>\<open>licverify.HardwareBinding\<close> have the same four fields and are only ever copied
  field by field into one another; one record stands for the three.
\<close>

record HardwareBinding =
  MACAddresses :: "gostring list"
  DiskIDs :: "gostring list"
  HostNames :: "gostring list"
  CustomIDs :: "gostring list"

record LicenseData =
  ID :: gostring
  CustomerID :: gostring
  ProductID :: gostring
  SerialNumber :: gostring
  IssueDate :: Time
  ExpiryDate :: Time
  Features :: "gostring list"
  HardwareIDs :: HardwareBinding

text \<open>
  \<^verbatim>\<open>licformat.License\<close> and \<^verbatim>\<open>licverify.License\<close>: the fields of \<^verbatim>\<open>LicenseData\<close>
  and the detached signature.
\<close>

record License = LicenseData +
  Signature :: "byte list"

record header =
  Version :: byte
  Length :: "32 word"

definition currentVersion :: byte where
  "currentVersion = 1"

text \<open>
  The errors the program returns, one constructor for each \<^verbatim>\<open>errors.New\<close> or
  \<^verbatim>\<open>fmt.Errorf\<close> site; an error that wraps another one carries it.
\<close>

datatype error =
    ErrDataTooSmall
  | ErrUnsupportedVersion
  | EOF
  | ErrUnexpectedEOF
  | ErrReadFile
  | ErrFileTooSmall
  | ErrParseLicense error
  | ErrEncodeLicense error
  | ErrMarshalLicense
  | ErrInvalidSignature
  | ErrInterfaces
  | ErrNoValidMAC
  | ErrGetMACAddresses error
  | ErrGetHostname
  | ErrHardwareInfo error
  | ErrMACMismatch
  | ErrDiskIDMismatch
  | ErrHostnameMismatch
  | ErrExpired Time
  | ErrSignData
  | ErrSignLicense error

section \<open>Binary format (package licformat)\<close>

subsection \<open>Little-endian integers\<close>

text \<open>
  \<^verbatim>\<open>binary.LittleEndian\<close>: the \<open>n\<close> bytes of a value, least significant first, and the
  value of a byte sequence.
\<close>

fun le_bytes :: "nat \<Rightarrow> nat \<Rightarrow> byte list" where
  "le_bytes 0 k = []"
| "le_bytes (Suc n) k = of_nat k # le_bytes n (k div 256)"

fun le_nat :: "byte list \<Rightarrow> nat" where
  "le_nat [] = 0"
| "le_nat (b # bs) = unat b + 256 * le_nat bs"

definition put_uint16 :: "16 word \<Rightarrow> byte list" where
  "put_uint16 v = le_bytes 2 (unat v)"

definition put_uint32 :: "32 word \<Rightarrow> byte list" where
  "put_uint32 v = le_bytes 4 (unat v)"

definition put_int64 :: "64 word \<Rightarrow> byte list" where
  "put_int64 v = le_bytes 8 (unat v)"

definition get_uint16 :: "byte list \<Rightarrow> 16 word" where
  "get_uint16 bs = of_nat (le_nat bs)"

definition get_uint32 :: "byte list \<Rightarrow> 32 word" where
  "get_uint32 bs = of_nat (le_nat bs)"

definition get_int64 :: "byte list \<Rightarrow> 64 word" where
  "get_int64 bs = of_nat (le_nat bs)"

subsection \<open>Readers\<close>

text \<open>
  A \<^verbatim>\<open>bytes.Reader\<close> is modelled by the bytes it has not yet handed out; every read
  returns its result together with the reader's new state.

  \<^verbatim>\<open>io.ReadFull\<close>, through which \<^verbatim>\<open>binary.Read\<close> fetches the \<open>n > 0\<close> bytes of a
  fixed-size value: \<^verbatim>\<open>io.EOF\<close> when nothing is left, \<^verbatim>\<open>io.ErrUnexpectedEOF\<close> when fewer
  than \<open>n\<close> bytes are.
\<close>

definition ReadFull :: "nat \<Rightarrow> byte list \<Rightarrow> error + (byte list \<times> byte list)" where
  "ReadFull n r =
     (if n \<le> length r then Inr (take n r, drop n r)
      else if r = [] then Inl EOF
      else Inl ErrUnexpectedEOF)"

text \<open>
  \<^verbatim>\<open>Read(data)\<close> of a \<^verbatim>\<open>bytes.Reader\<close> with \<^verbatim>\<open>data := make([]byte, n)\<close>: at the end of the input
  it returns \<^verbatim>\<open>io.EOF\<close>, also when \<open>n = 0\<close>; otherwise it copies as many bytes as there
  are, at most \<open>n\<close>, and returns no error. The bytes of \<^verbatim>\<open>data\<close> it did not reach
  keep the zero that \<^verbatim>\<open>make\<close> gave them.
\<close>

definition Reader_Read :: "nat \<Rightarrow> byte list \<Rightarrow> error + (byte list \<times> byte list)" where
  "Reader_Read n r =
     (if r = [] then Inl EOF
      else Inr (take n r @ replicate (n - length r) 0, drop n r))"

definition bindE :: "error + 'a \<Rightarrow> ('a \<Rightarrow> error + 'b) \<Rightarrow> error + 'b" where
  "bindE m f = (case m of Inl e \<Rightarrow> Inl e | Inr x \<Rightarrow> f x)"

definition read_uint16 :: "byte list \<Rightarrow> error + (16 word \<times> byte list)" where
  "read_uint16 r = bindE (ReadFull 2 r) (\<lambda>(bs, r'). Inr (get_uint16 bs, r'))"

definition read_int64 :: "byte list \<Rightarrow> error + (64 word \<times> byte list)" where
  "read_int64 r = bindE (ReadFull 8 r) (\<lambda>(bs, r'). Inr (get_int64 bs, r'))"

definition read_header :: "byte list \<Rightarrow> error + (header \<times> byte list)" where
  "read_header r =
     bindE (ReadFull 5 r)
       (\<lambda>(bs, r'). Inr (\<lparr>Version = hd bs, Length = get_uint32 (tl bs)\<rparr>, r'))"

definition readString :: "byte list \<Rightarrow> error + (gostring \<times> byte list)" where
  "readString r =
     bindE (read_uint16 r) (\<lambda>(length', r1).
     bindE (Reader_Read (unat length') r1) (\<lambda>(data, r2).
     Inr (data, r2)))"

text \<open>The loop of \<^verbatim>\<open>readStringSlice\<close>, by the number of strings still to read.\<close>

fun readStrings :: "nat \<Rightarrow> byte list \<Rightarrow> error + (gostring list \<times> byte list)" where
  "readStrings 0 r = Inr ([], r)"
| "readStrings (Suc n) r =
     bindE (readString r) (\<lambda>(s, r1).
     bindE (readStrings n r1) (\<lambda>(ss, r2).
     Inr (s # ss, r2)))"

definition readStringSlice :: "byte list \<Rightarrow> error + (gostring list \<times> byte list)" where
  "readStringSlice r =
     bindE (read_uint16 r) (\<lambda>(length', r1). readStrings (unat length') r1)"

subsection \<open>Writers\<close>

text \<open>
  A \<^verbatim>\<open>bytes.Buffer\<close> is the list of bytes written so far; a write appends and cannot
  fail. \<^verbatim>\<open>uint16(len(data))\<close> is the conversion \<open>of_nat\<close> into a 16-bit word.
\<close>

definition writeString :: "byte list \<Rightarrow> gostring \<Rightarrow> byte list" where
  "writeString buf s = (buf @ put_uint16 (of_nat (length s))) @ s"

definition writeStringSlice :: "byte list \<Rightarrow> gostring list \<Rightarrow> byte list" where
  "writeStringSlice buf strs =
     foldl writeString (buf @ put_uint16 (of_nat (length strs))) strs"

definition write_header :: "byte list \<Rightarrow> header \<Rightarrow> byte list" where
  "write_header buf h = buf @ [Version h] @ put_uint32 (Length h)"

text \<open>
  \<^verbatim>\<open>EncodeLicenseData\<close>. Its only error return is that of \<^verbatim>\<open>binary.Write\<close> for the
  header, which cannot fail on a fixed-size struct written to a buffer, so every path
  ends in \<open>Inr\<close>. The last step overwrites bytes 1 to 4 with the body length.
\<close>

definition EncodeLicenseData :: "LicenseData \<Rightarrow> error + byte list" where
  "EncodeLicenseData data =
     (let buf = write_header [] \<lparr>Version = currentVersion, Length = 0\<rparr>;
          headerSize = length buf;
          buf = writeString buf (ID data);
          buf = writeString buf (CustomerID data);
          buf = writeString buf (ProductID data);
          buf = writeString buf (SerialNumber data);
          buf = buf @ put_int64 (Unix (IssueDate data));
          buf = buf @ put_int64 (Unix (ExpiryDate data));
          buf = writeStringSlice buf (Features data);
          buf = writeStringSlice buf (MACAddresses (HardwareIDs data));
          buf = writeStringSlice buf (DiskIDs (HardwareIDs data));
          buf = writeStringSlice buf (HostNames (HardwareIDs data));
          buf = writeStringSlice buf (CustomIDs (HardwareIDs data));
          bytes = take 1 buf @ put_uint32 (of_nat (length buf - headerSize)) @ drop 5 buf
      in Inr bytes)"

text \<open>
  \<^verbatim>\<open>DecodeLicenseData\<close>. The header's \<^verbatim>\<open>Length\<close> is read and never looked at again.
\<close>

definition DecodeLicenseData :: "byte list \<Rightarrow> error + LicenseData" where
  "DecodeLicenseData data =
     (if length data < 5 then Inl ErrDataTooSmall
      else
        bindE (read_header data) (\<lambda>(h, buf).
        if Version h \<noteq> currentVersion then Inl ErrUnsupportedVersion
        else
          bindE (readString buf) (\<lambda>(id', buf).
          bindE (readString buf) (\<lambda>(customerID, buf).
          bindE (readString buf) (\<lambda>(productID, buf).
          bindE (readString buf) (\<lambda>(serialNumber, buf).
          bindE (read_int64 buf) (\<lambda>(issueUnix, buf).
          bindE (read_int64 buf) (\<lambda>(expiryUnix, buf).
          bindE (readStringSlice buf) (\<lambda>(features, buf).
          bindE (readStringSlice buf) (\<lambda>(macAddresses, buf).
          bindE (readStringSlice buf) (\<lambda>(diskIDs, buf).
          bindE (readStringSlice buf) (\<lambda>(hostNames, buf).
          bindE (readStringSlice buf) (\<lambda>(customIDs, buf).
          Inr \<lparr>ID = id', CustomerID = customerID, ProductID = productID,
               SerialNumber = serialNumber,
               IssueDate = time_Unix issueUnix 0,
               ExpiryDate = time_Unix expiryUnix 0,
               Features = features,
               HardwareIDs = \<lparr>MACAddresses = macAddresses, DiskIDs = diskIDs,
                              HostNames = hostNames, CustomIDs = customIDs\<rparr>\<rparr>)))))))))))))"

subsection \<open>Adapter\<close>

definition ToLicenseData :: "License \<Rightarrow> LicenseData" where
  "ToLicenseData license =
     \<lparr>ID = ID license, CustomerID = CustomerID license, ProductID = ProductID license,
      SerialNumber = SerialNumber license, IssueDate = IssueDate license,
      ExpiryDate = ExpiryDate license, Features = Features license,
      HardwareIDs =
        \<lparr>MACAddresses = MACAddresses (HardwareIDs license),
         DiskIDs = DiskIDs (HardwareIDs license),
         HostNames = HostNames (HardwareIDs license),
         CustomIDs = CustomIDs (HardwareIDs license)\<rparr>\<rparr>"

definition FromLicenseData :: "LicenseData \<Rightarrow> License" where
  "FromLicenseData data =
     \<lparr>ID = ID data, CustomerID = CustomerID data, ProductID = ProductID data,
      SerialNumber = SerialNumber data, IssueDate = IssueDate data,
      ExpiryDate = ExpiryDate data, Features = Features data,
      HardwareIDs =
        \<lparr>MACAddresses = MACAddresses (HardwareIDs data),
         DiskIDs = DiskIDs (HardwareIDs data),
         HostNames = HostNames (HardwareIDs data),
         CustomIDs = CustomIDs (HardwareIDs data)\<rparr>,
      Signature = []\<rparr>"

definition EncodeLicense :: "License \<Rightarrow> error + byte list" where
  "EncodeLicense license = EncodeLicenseData (ToLicenseData license)"

definition DecodeLicense :: "byte list \<Rightarrow> error + License" where
  "DecodeLicense data =
     (case DecodeLicenseData data of
        Inl err \<Rightarrow> Inl err
      | Inr licenseData \<Rightarrow> Inr (FromLicenseData licenseData))"

section \<open>Hardware detection (package licverify)\<close>

text \<open>
  What \<^verbatim>\<open>GetHardwareInfo\<close> asks the operating system is an input of the model:
  the result of \<^verbatim>\<open>net.Interfaces()\<close> (\<open>None\<close> when it returns an error), each interface
  with its flags and the text of its hardware address (\<^verbatim>\<open>HardwareAddr.String()\<close>, empty
  for an interface without one), the result of \<^verbatim>\<open>os.Hostname()\<close>, and what
  \<^verbatim>\<open>getDiskIDs\<close> and \<^verbatim>\<open>getCPUInfo\<close> return. These two run external commands; each of
  their branches returns a \<^verbatim>\<open>nil\<close> error, so they are plain values here.
\<close>

record Interface =
  Flags :: "64 word"
  HardwareAddr_String :: gostring

definition FlagUp :: "64 word" where
  "FlagUp = 1"

definition FlagLoopback :: "64 word" where
  "FlagLoopback = 4"

record Machine =
  net_Interfaces :: "Interface list option"
  getDiskIDs :: "gostring list"
  os_Hostname :: "gostring option"
  getCPUInfo :: gostring

record HardwareInfo =
  hw_MACAddresses :: "gostring list"
  hw_DiskIDs :: "gostring list"
  Hostname :: gostring
  CPUInfo :: gostring

text \<open>The loop of \<^verbatim>\<open>getMACAddresses\<close> over the interfaces.\<close>

fun collectMACs :: "Interface list \<Rightarrow> gostring list" where
  "collectMACs [] = []"
| "collectMACs (iface # interfaces) =
     (if Flags iface AND FlagUp \<noteq> 0 \<and> Flags iface AND FlagLoopback = 0 \<and>
         length (HardwareAddr_String iface) > 0
      then HardwareAddr_String iface # collectMACs interfaces
      else collectMACs interfaces)"

definition getMACAddresses :: "Machine \<Rightarrow> error + gostring list" where
  "getMACAddresses m =
     (case net_Interfaces m of
        None \<Rightarrow> Inl ErrInterfaces
      | Some interfaces \<Rightarrow>
          (let macAddresses = collectMACs interfaces
           in if length macAddresses = 0 then Inl ErrNoValidMAC else Inr macAddresses))"

definition GetHardwareInfo :: "Machine \<Rightarrow> error + HardwareInfo" where
  "GetHardwareInfo m =
     (case getMACAddresses m of
        Inl err \<Rightarrow> Inl (ErrGetMACAddresses err)
      | Inr macs \<Rightarrow>
          (case os_Hostname m of
             None \<Rightarrow> Inl ErrGetHostname
           | Some hostname \<Rightarrow>
               Inr \<lparr>hw_MACAddresses = macs, hw_DiskIDs = getDiskIDs m,
                    Hostname = hostname, CPUInfo = getCPUInfo m\<rparr>))"

section \<open>Verification (package licverify)\<close>

text \<open>
  The library functions the verifier calls are parameters. A \<open>Verifier\<close> holds its
  public key through the one thing done with it: \<open>rsa_Verify v data sig\<close> is true when
  \<^verbatim>\<open>rsa.VerifyPKCS1v15(v.publicKey, crypto.SHA256, hashed[:], sig)\<close> returns \<^verbatim>\<open>nil\<close> for
  \<^verbatim>\<open>hashed := sha256.Sum256(data)\<close>. \<open>Marshal\<close> and \<open>Unmarshal\<close> are \<^verbatim>\<open>json.Marshal\<close> and
  \<^verbatim>\<open>json.Unmarshal\<close> at type \<^verbatim>\<open>License\<close>, \<open>None\<close> for an error; the \<^verbatim>\<open>Signature\<close> field is
  tagged \<^verbatim>\<open>json:"-"\<close> and takes no part in either.
\<close>

record Verifier =
  rsa_Verify :: "byte list \<Rightarrow> byte list \<Rightarrow> bool"

record json =
  Marshal :: "License \<Rightarrow> byte list option"
  Unmarshal :: "byte list \<Rightarrow> License option"

text \<open>
  \<^verbatim>\<open>LoadLicense\<close>; the argument is the result of \<^verbatim>\<open>os.ReadFile\<close>, \<open>None\<close> for an error.
\<close>

definition LoadLicense :: "json \<Rightarrow> byte list option \<Rightarrow> error + License" where
  "LoadLicense js file =
     (case file of
        None \<Rightarrow> Inl ErrReadFile
      | Some data \<Rightarrow>
          if length data < 256 then Inl ErrFileTooSmall
          else
            (let licenseData = take (length data - 256) data;
                 signature = drop (length data - 256) data
             in case DecodeLicense licenseData of
                  Inl err \<Rightarrow>
                    (case Unmarshal js licenseData of
                       None \<Rightarrow> Inl (ErrParseLicense err)
                     | Some license \<Rightarrow> Inr (license\<lparr>Signature := signature\<rparr>))
                | Inr importedLicense \<Rightarrow>
                    Inr \<lparr>ID = ID importedLicense,
                         CustomerID = CustomerID importedLicense,
                         ProductID = ProductID importedLicense,
                         SerialNumber = SerialNumber importedLicense,
                         IssueDate = IssueDate importedLicense,
                         ExpiryDate = ExpiryDate importedLicense,
                         Features = Features importedLicense,
                         HardwareIDs =
                           \<lparr>MACAddresses = MACAddresses (HardwareIDs importedLicense),
                            DiskIDs = DiskIDs (HardwareIDs importedLicense),
                            HostNames = HostNames (HardwareIDs importedLicense),
                            CustomIDs = CustomIDs (HardwareIDs importedLicense)\<rparr>,
                         Signature = signature\<rparr>))"

text \<open>\<^verbatim>\<open>VerifySignature\<close>; \<open>None\<close> is the \<^verbatim>\<open>nil\<close> error.\<close>

definition VerifySignature :: "json \<Rightarrow> Verifier \<Rightarrow> License \<Rightarrow> error option" where
  "VerifySignature js v license =
     (let licenseCopy = license\<lparr>Signature := []\<rparr>;
          licenseFormatObj =
            \<lparr>ID = ID licenseCopy, CustomerID = CustomerID licenseCopy,
             ProductID = ProductID licenseCopy, SerialNumber = SerialNumber licenseCopy,
             IssueDate = IssueDate licenseCopy, ExpiryDate = ExpiryDate licenseCopy,
             Features = Features licenseCopy,
             HardwareIDs =
               \<lparr>MACAddresses = MACAddresses (HardwareIDs licenseCopy),
                DiskIDs = DiskIDs (HardwareIDs licenseCopy),
                HostNames = HostNames (HardwareIDs licenseCopy),
                CustomIDs = CustomIDs (HardwareIDs licenseCopy)\<rparr>,
             Signature = []\<rparr>
      in case EncodeLicense licenseFormatObj of
           Inl err \<Rightarrow> Some (ErrEncodeLicense err)
         | Inr licenseData \<Rightarrow>
             if rsa_Verify v licenseData (Signature license) then None
             else
               (case Marshal js licenseCopy of
                  None \<Rightarrow> Some ErrMarshalLicense
                | Some jsonData \<Rightarrow>
                    if rsa_Verify v jsonData (Signature license) then None
                    else Some ErrInvalidSignature))"

fun contains :: "gostring list \<Rightarrow> gostring \<Rightarrow> bool" where
  "contains [] item = False"
| "contains (s # rest) item = (if s = item then True else contains rest item)"

text \<open>The inner and the outer loop of \<^verbatim>\<open>containsAny\<close>.\<close>

fun containsAny_inner :: "gostring \<Rightarrow> gostring list \<Rightarrow> bool" where
  "containsAny_inner s1 [] = False"
| "containsAny_inner s1 (s2 # rest) = (if s1 = s2 then True else containsAny_inner s1 rest)"

fun containsAny :: "gostring list \<Rightarrow> gostring list \<Rightarrow> bool" where
  "containsAny [] slice2 = False"
| "containsAny (s1 # rest) slice2 =
     (if containsAny_inner s1 slice2 then True else containsAny rest slice2)"

definition VerifyHardwareBinding :: "Machine \<Rightarrow> License \<Rightarrow> error option" where
  "VerifyHardwareBinding m license =
     (case GetHardwareInfo m of
        Inl err \<Rightarrow> Some (ErrHardwareInfo err)
      | Inr hwInfo \<Rightarrow>
          if length (MACAddresses (HardwareIDs license)) > 0 \<and>
             \<not> containsAny (hw_MACAddresses hwInfo) (MACAddresses (HardwareIDs license))
          then Some ErrMACMismatch
          else if length (DiskIDs (HardwareIDs license)) > 0 \<and>
             \<not> containsAny (hw_DiskIDs hwInfo) (DiskIDs (HardwareIDs license))
          then Some ErrDiskIDMismatch
          else if length (HostNames (HardwareIDs license)) > 0 \<and>
             \<not> contains (HostNames (HardwareIDs license)) (Hostname hwInfo)
          then Some ErrHostnameMismatch
          else None)"

text \<open>\<^verbatim>\<open>VerifyExpiry\<close>; \<open>now\<close> is what \<^verbatim>\<open>time.Now()\<close> returns.\<close>

definition VerifyExpiry :: "Time \<Rightarrow> License \<Rightarrow> error option" where
  "VerifyExpiry now license =
     (if After now (ExpiryDate license) then Some (ErrExpired (ExpiryDate license))
      else None)"

definition IsValid :: "json \<Rightarrow> Verifier \<Rightarrow> Machine \<Rightarrow> Time \<Rightarrow> License \<Rightarrow> error option" where
  "IsValid js verifier m now license =
     (case VerifySignature js verifier license of
        Some err \<Rightarrow> Some err
      | None \<Rightarrow>
          (case VerifyHardwareBinding m license of
             Some err \<Rightarrow> Some err
           | None \<Rightarrow>
               (case VerifyExpiry now license of
                  Some err \<Rightarrow> Some err
                | None \<Rightarrow> None)))"

section \<open>Issuing (package licgen)\<close>

text \<open>
  A private key is what signing does with it: \<open>rsa_Sign key data\<close> is the result of
  \<^verbatim>\<open>rsa.SignPKCS1v15(rand.Reader, privateKey, crypto.SHA256, hashed[:])\<close> for
  \<^verbatim>\<open>hashed := sha256.Sum256(data)\<close>, \<open>None\<close> for an error.
\<close>

record PrivateKey =
  rsa_Sign :: "byte list \<Rightarrow> byte list option"

definition SignData :: "byte list \<Rightarrow> PrivateKey \<Rightarrow> error + byte list" where
  "SignData data privateKey =
     (case rsa_Sign privateKey data of
        None \<Rightarrow> Inl ErrSignData
      | Some signature \<Rightarrow> Inr signature)"

text \<open>
  \<^verbatim>\<open>GenerateLicense\<close>; \<open>issueDate\<close> and \<open>expiryDate\<close> are the values of \<^verbatim>\<open>time.Now()\<close> and
  \<^verbatim>\<open>time.Now().Add(expiryDuration)\<close>.
\<close>

definition GenerateLicense ::
  "gostring \<Rightarrow> gostring \<Rightarrow> gostring \<Rightarrow> gostring \<Rightarrow> Time \<Rightarrow> Time \<Rightarrow> gostring list \<Rightarrow>
   HardwareBinding \<Rightarrow> PrivateKey \<Rightarrow> error + byte list" where
  "GenerateLicense id' customerID productID serialNumber issueDate expiryDate features
     hardwareIDs privateKey =
     (let licenseFormatObj =
            \<lparr>ID = id', CustomerID = customerID, ProductID = productID,
             SerialNumber = serialNumber, IssueDate = issueDate, ExpiryDate = expiryDate,
             Features = features,
             HardwareIDs =
               \<lparr>MACAddresses = MACAddresses hardwareIDs, DiskIDs = DiskIDs hardwareIDs,
                HostNames = HostNames hardwareIDs, CustomIDs = CustomIDs hardwareIDs\<rparr>,
             Signature = []\<rparr>
      in case EncodeLicense licenseFormatObj of
           Inl err \<Rightarrow> Inl (ErrEncodeLicense err)
         | Inr licenseData \<Rightarrow>
             (case SignData licenseData privateKey of
                Inl err \<Rightarrow> Inl (ErrSignLicense err)
              | Inr signature \<Rightarrow> Inr (licenseData @ signature)))"

section \<open>Wire layout and sample inputs\<close>

text \<open>
  The layout the writers produce, as functions of the value alone; the lemmas below
  relate \<open>writeString\<close>, \<open>writeStringSlice\<close> and \<open>EncodeLicenseData\<close> to them.
\<close>

definition enc_string :: "gostring \<Rightarrow> byte list" where
  "enc_string s = put_uint16 (of_nat (length s)) @ s"

definition enc_strings :: "gostring list \<Rightarrow> byte list" where
  "enc_strings xs = put_uint16 (of_nat (length xs)) @ concat (map enc_string xs)"

definition enc_body :: "LicenseData \<Rightarrow> byte list" where
  "enc_body d =
     enc_string (ID d) @ enc_string (CustomerID d) @ enc_string (ProductID d) @
     enc_string (SerialNumber d) @
     put_int64 (Unix (IssueDate d)) @ put_int64 (Unix (ExpiryDate d)) @
     enc_strings (Features d) @
     enc_strings (MACAddresses (HardwareIDs d)) @
     enc_strings (DiskIDs (HardwareIDs d)) @
     enc_strings (HostNames (HardwareIDs d)) @
     enc_strings (CustomIDs (HardwareIDs d))"

text \<open>
  Every length and count of a payload fits its 16-bit field: the four strings, the five
  lists, and every entry of the lists.
\<close>

definition fits16 :: "LicenseData \<Rightarrow> bool" where
  "fits16 d \<longleftrightarrow>
     length (ID d) \<le> 65535 \<and> length (CustomerID d) \<le> 65535 \<and>
     length (ProductID d) \<le> 65535 \<and> length (SerialNumber d) \<le> 65535 \<and>
     (\<forall>xs \<in> {Features d, MACAddresses (HardwareIDs d), DiskIDs (HardwareIDs d),
               HostNames (HardwareIDs d), CustomIDs (HardwareIDs d)}.
        length xs \<le> 65535 \<and> (\<forall>s \<in> set xs. length s \<le> 65535))"

text \<open>
  The weaker condition that looks at the four strings and at the number of entries of
  the five lists only, not at the entries.
\<close>

definition top_level_fits16 :: "LicenseData \<Rightarrow> bool" where
  "top_level_fits16 d \<longleftrightarrow>
     length (ID d) \<le> 65535 \<and> length (CustomerID d) \<le> 65535 \<and>
     length (ProductID d) \<le> 65535 \<and> length (SerialNumber d) \<le> 65535 \<and>
     length (Features d) \<le> 65535 \<and>
     length (MACAddresses (HardwareIDs d)) \<le> 65535 \<and>
     length (DiskIDs (HardwareIDs d)) \<le> 65535 \<and>
     length (HostNames (HardwareIDs d)) \<le> 65535 \<and>
     length (CustomIDs (HardwareIDs d)) \<le> 65535"

text \<open>What decoding makes of a payload: the same value with both times cut to the second.\<close>

definition to_seconds :: "LicenseData \<Rightarrow> LicenseData" where
  "to_seconds d =
     d\<lparr>IssueDate := time_Unix (Unix (IssueDate d)) 0,
       ExpiryDate := time_Unix (Unix (ExpiryDate d)) 0\<rparr>"

text \<open>
  The payload of the specification's end-to-end scenario: id \<^verbatim>\<open>L1\<close>, customer \<^verbatim>\<open>C1\<close>,
  product \<^verbatim>\<open>P1\<close>, serial \<^verbatim>\<open>S1\<close>, the feature \<^verbatim>\<open>basic\<close>, no hardware binding, valid for
  365 days; and variants of it.
\<close>

definition unbound :: HardwareBinding where
  "unbound = \<lparr>MACAddresses = [], DiskIDs = [], HostNames = [], CustomIDs = []\<rparr>"

definition sample_data :: LicenseData where
  "sample_data =
     \<lparr>ID = [0x4C, 0x31], CustomerID = [0x43, 0x31], ProductID = [0x50, 0x31],
      SerialNumber = [0x53, 0x31],
      IssueDate = \<lparr>sec = 1700000000, nsec = 0\<rparr>,
      ExpiryDate = \<lparr>sec = 1731536000, nsec = 0\<rparr>,
      Features = [[0x62, 0x61, 0x73, 0x69, 0x63]],
      HardwareIDs = unbound\<rparr>"

text \<open>The custom id \<^verbatim>\<open>ab\<close> as the last thing encoded.\<close>

definition sample_custom_ab :: LicenseData where
  "sample_custom_ab = sample_data\<lparr>HardwareIDs := unbound\<lparr>CustomIDs := [[0x61, 0x62]]\<rparr>\<rparr>"

text \<open>An empty custom id as the last thing encoded.\<close>

definition sample_custom_empty :: LicenseData where
  "sample_custom_empty = sample_data\<lparr>HardwareIDs := unbound\<lparr>CustomIDs := [[]]\<rparr>\<rparr>"

text \<open>One feature of 65536 zero bytes, and an id of 65536 bytes.\<close>

definition sample_long_feature :: LicenseData where
  "sample_long_feature = sample_data\<lparr>Features := [replicate 65536 0]\<rparr>"

definition sample_long_id :: LicenseData where
  "sample_long_id = sample_data\<lparr>ID := replicate 65536 0x41\<rparr>"


text \<open>
  The names \<^verbatim>\<open>M1\<close>, \<^verbatim>\<open>H1\<close> and \<^verbatim>\<open>H2\<close>; machines whose one interface that is up has the
  hardware address \<^verbatim>\<open>M1\<close> beside a loopback interface, with host name \<^verbatim>\<open>H1\<close> or
  \<^verbatim>\<open>H2\<close>; and a machine with the loopback interface only.
\<close>

definition sample_M1 :: gostring where
  "sample_M1 = [0x4D, 0x31]"

definition sample_H1 :: gostring where
  "sample_H1 = [0x48, 0x31]"

definition sample_H2 :: gostring where
  "sample_H2 = [0x48, 0x32]"

definition loopback :: Interface where
  "loopback = \<lparr>Flags = FlagUp OR FlagLoopback, HardwareAddr_String = []\<rparr>"

definition machine_M1_H1 :: Machine where
  "machine_M1_H1 =
     \<lparr>net_Interfaces = Some [loopback, \<lparr>Flags = FlagUp, HardwareAddr_String = sample_M1\<rparr>],
      getDiskIDs = [], os_Hostname = Some sample_H1, getCPUInfo = []\<rparr>"

definition machine_M1_H2 :: Machine where
  "machine_M1_H2 = machine_M1_H1\<lparr>os_Hostname := Some sample_H2\<rparr>"

definition machine_loopback_only :: Machine where
  "machine_loopback_only = machine_M1_H1\<lparr>net_Interfaces := Some [loopback]\<rparr>"

text \<open>
  A signature of 256 bytes; the scenario payload bound to \<^verbatim>\<open>M1\<close> and \<^verbatim>\<open>H1\<close>; both
  payloads as loaded licenses carrying that signature.
\<close>

definition sample_signature :: "byte list" where
  "sample_signature = replicate 256 0x5A"

definition bound_data :: LicenseData where
  "bound_data =
     sample_data\<lparr>HardwareIDs := unbound\<lparr>MACAddresses := [sample_M1], HostNames := [sample_H1]\<rparr>\<rparr>"

definition bound_license :: License where
  "bound_license = (FromLicenseData bound_data)\<lparr>Signature := sample_signature\<rparr>"

definition unbound_license :: License where
  "unbound_license = (FromLicenseData sample_data)\<lparr>Signature := sample_signature\<rparr>"

text \<open>
  A verifier whose key accepts one signature for one byte sequence and nothing else;
  a private key whose signatures have 512 bytes, as those of a 4096-bit RSA key have;
  and JSON functions for inputs that are not JSON.
\<close>

definition verifier_for :: "byte list \<Rightarrow> byte list \<Rightarrow> Verifier" where
  "verifier_for payload signature =
     \<lparr>rsa_Verify = (\<lambda>data sig. data = payload \<and> sig = signature)\<rparr>"

definition key4096 :: PrivateKey where
  "key4096 = \<lparr>rsa_Sign = (\<lambda>data. Some (replicate 512 0x5A))\<rparr>"

definition json_stub :: json where
  "json_stub = \<lparr>Marshal = (\<lambda>license. Some [0x7B, 0x7D]), Unmarshal = (\<lambda>data. None)\<rparr>"

text \<open>The expiry date of the scenario payload, and one second later.\<close>

definition at_expiry :: Time where
  "at_expiry = \<lparr>sec = 1731536000, nsec = 0\<rparr>"

definition after_expiry :: Time where
  "after_expiry = \<lparr>sec = 1731536001, nsec = 0\<rparr>"

section \<open>Properties of the binary format\<close>

lemma bindE_simps:
  "bindE (Inl e) f = Inl e"
  "bindE (Inr x) f = f x"
  by (simp_all add: bindE_def)

lemma le_nat_le_bytes: "le_nat (le_bytes n k) = k mod 256 ^ n"
proof (induction n arbitrary: k)
  case 0
  show ?case by simp
next
  case (Suc n)
  have "k mod (256 * 256 ^ n) = 256 * (k div 256 mod 256 ^ n) + k mod 256"
    by (rule mod_mult2_eq)
  with Suc show ?case
    by (simp add: unat_of_nat)
qed

lemma length_le_bytes: "length (le_bytes n k) = n"
  by (induction n arbitrary: k) simp_all

lemma get_put_uint16: "get_uint16 (put_uint16 v) = v"
proof -
  have "unat v < 256 ^ 2" using unsigned_less [of v, where 'a = nat] by simp
  then show ?thesis
    by (simp add: get_uint16_def put_uint16_def le_nat_le_bytes)
qed

lemma get_put_int64: "get_int64 (put_int64 v) = v"
proof -
  have "unat v < 256 ^ 8" using unsigned_less [of v, where 'a = nat] by simp
  then show ?thesis
    by (simp add: get_int64_def put_int64_def le_nat_le_bytes)
qed

lemma length_put:
  "length (put_uint16 v) = 2" "length (put_uint32 w) = 4" "length (put_int64 x) = 8"
  by (simp_all add: put_uint16_def put_uint32_def put_int64_def length_le_bytes)

lemma put_nonempty: "put_uint16 v \<noteq> []" "put_int64 x \<noteq> []"
  using length_put(1) [of v] length_put(3) [of x] by auto

lemma ReadFull_append: "length a = n \<Longrightarrow> ReadFull n (a @ r) = Inr (a, r)"
  by (simp add: ReadFull_def)

lemma read_uint16_put: "read_uint16 (put_uint16 v @ r) = Inr (v, r)"
  by (simp add: read_uint16_def ReadFull_append bindE_simps get_put_uint16 length_put)

lemma read_int64_put: "read_int64 (put_int64 v @ r) = Inr (v, r)"
  by (simp add: read_int64_def ReadFull_append bindE_simps get_put_int64 length_put)

lemma unat_uint16_length: "n \<le> 65535 \<Longrightarrow> unat (of_nat n :: 16 word) = n"
  by (simp add: unat_of_nat)

lemma readString_enc:
  assumes "length s \<le> 65535" and "s \<noteq> [] \<or> r \<noteq> []"
  shows "readString (enc_string s @ r) = Inr (s, r)"
  using assms
  by (auto simp add: enc_string_def readString_def read_uint16_put bindE_simps
      Reader_Read_def unat_uint16_length)

lemma writeString_layout: "writeString buf s = buf @ enc_string s"
  by (simp add: writeString_def enc_string_def)

lemma foldl_writeString: "foldl writeString buf xs = buf @ concat (map enc_string xs)"
  by (induction xs arbitrary: buf) (simp_all add: writeString_layout)

lemma writeStringSlice_layout: "writeStringSlice buf xs = buf @ enc_strings xs"
  by (simp add: writeStringSlice_def enc_strings_def foldl_writeString)

lemma enc_nonempty: "enc_string s \<noteq> []" "enc_strings xs \<noteq> []"
  by (simp_all add: enc_string_def enc_strings_def put_nonempty)

lemma readStrings_enc:
  assumes "\<forall>s \<in> set xs. length s \<le> 65535" and "xs = [] \<or> last xs \<noteq> [] \<or> r \<noteq> []"
  shows "readStrings (length xs) (concat (map enc_string xs) @ r) = Inr (xs, r)"
  using assms
proof (induction xs)
  case Nil
  show ?case by simp
next
  case (Cons x xs)
  let ?rest = "concat (map enc_string xs) @ r"
  have nonempty: "x \<noteq> [] \<or> ?rest \<noteq> []"
    using Cons.prems(2) by (cases xs) (simp_all add: enc_nonempty)
  have x: "readString (enc_string x @ ?rest) = Inr (x, ?rest)"
    using Cons.prems(1) nonempty by (intro readString_enc) simp_all
  have tail: "xs = [] \<or> last xs \<noteq> [] \<or> r \<noteq> []"
    using Cons.prems(2) by (auto split: if_splits)
  have "readStrings (length xs) ?rest = Inr (xs, r)"
    using Cons.IH Cons.prems(1) tail by simp
  with x show ?case by (simp add: bindE_simps)
qed

lemma readStringSlice_enc:
  assumes "length xs \<le> 65535" and "\<forall>s \<in> set xs. length s \<le> 65535"
    and "xs = [] \<or> last xs \<noteq> [] \<or> r \<noteq> []"
  shows "readStringSlice (enc_strings xs @ r) = Inr (xs, r)"
  using assms
  by (simp add: enc_strings_def readStringSlice_def read_uint16_put bindE_simps
      unat_uint16_length readStrings_enc)

lemma patch_length:
  assumes "length hdr = 5"
  shows "take 1 (hdr @ body) @ put_uint32 (of_nat (length (hdr @ body) - length hdr)) @
           drop 5 (hdr @ body) =
         take 1 hdr @ put_uint32 (of_nat (length body)) @ body"
  using assms by simp

lemma EncodeLicenseData_layout:
  "EncodeLicenseData d =
     Inr (currentVersion # put_uint32 (of_nat (length (enc_body d))) @ enc_body d)"
proof -
  define hdr where "hdr = write_header [] \<lparr>Version = currentVersion, Length = 0\<rparr>"
  have hdr: "hdr = currentVersion # put_uint32 0"
    by (simp add: hdr_def write_header_def)
  then have len: "length hdr = 5"
    by (simp add: length_put)
  have "EncodeLicenseData d =
        Inr (take 1 (hdr @ enc_body d) @
             put_uint32 (of_nat (length (hdr @ enc_body d) - length hdr)) @
             drop 5 (hdr @ enc_body d))"
    unfolding EncodeLicenseData_def Let_def hdr_def [symmetric]
      writeString_layout writeStringSlice_layout enc_body_def append_assoc ..
  also have "\<dots> = Inr (take 1 hdr @ put_uint32 (of_nat (length (enc_body d))) @ enc_body d)"
    by (simp only: patch_length [OF len])
  finally show ?thesis
    by (simp add: hdr)
qed

lemma read_header_layout:
  "length l4 = 4 \<Longrightarrow>
   read_header (v # l4 @ body) = Inr (\<lparr>Version = v, Length = get_uint32 l4\<rparr>, body)"
  using ReadFull_append [of "v # l4" 5 body]
  by (simp add: read_header_def bindE_simps)

lemma decode_layout:
  assumes "fits16 d"
    and "CustomIDs (HardwareIDs d) = [] \<or> last (CustomIDs (HardwareIDs d)) \<noteq> []"
    and "length l4 = 4"
  shows "DecodeLicenseData (currentVersion # l4 @ enc_body d) =
         Inr (to_seconds d)"
  using assms
  by (simp add: to_seconds_def DecodeLicenseData_def read_header_layout bindE_simps enc_body_def
      fits16_def readString_enc put_nonempty enc_nonempty read_int64_put
      readStringSlice_enc readStringSlice_enc [where r = "[]", simplified])

lemma le_bytes_2: "le_bytes 2 k = [of_nat k, of_nat (k div 256)]"
  by (simp add: numeral_2_eq_2)


lemma put_uint16_numerals:
  "put_uint16 0 = [0, 0]" "put_uint16 1 = [1, 0]" "put_uint16 2 = [2, 0]"
  by (simp_all add: put_uint16_def le_bytes_2)

lemma get_uint16_numerals:
  "get_uint16 [0, 0] = 0" "get_uint16 [1, 0] = 1" "get_uint16 [2, 0] = 2"
  by (simp_all add: get_uint16_def)

lemma le_nat_zeros: "le_nat (replicate n 0) = 0"
  by (induction n) simp_all

lemma readStringSlice_zeros:
  "2 \<le> n \<Longrightarrow> readStringSlice (replicate n 0 @ r) = Inr ([], replicate (n - 2) 0 @ r)"
  by (simp add: readStringSlice_def read_uint16_def ReadFull_def bindE_simps
      get_uint16_def le_nat_zeros min_def)

lemma enc_strings_Nil: "enc_strings [] = replicate 2 0"
  by (simp add: enc_strings_def put_uint16_numerals numeral_2_eq_2)

lemma readStringSlice_long:
  "readStringSlice (enc_strings [replicate 65536 0] @ r) = Inr ([[]], replicate 65536 0 @ r)"
proof -
  have "readString (enc_string (replicate 65536 0) @ r) = Inr ([], replicate 65536 0 @ r)"
    by (simp add: enc_string_def readString_def read_uint16_put bindE_simps Reader_Read_def)
  then show ?thesis
    by (simp add: enc_strings_def readStringSlice_def read_uint16_put bindE_simps)
qed


lemma readStringSlice_empty_last: "readStringSlice (enc_strings [[]]) = Inl EOF"
  by (simp add: enc_strings_def enc_string_def readStringSlice_def readString_def
      read_uint16_put read_uint16_put [where r = "[]", simplified] bindE_simps Reader_Read_def
      put_uint16_numerals get_uint16_numerals read_uint16_def ReadFull_def)

lemma sample_data_fits: "fits16 sample_data"
  by (simp add: fits16_def sample_data_def unbound_def)

lemma sample_data_seconds: "to_seconds sample_data = sample_data"
  by (simp add: to_seconds_def sample_data_def time_Unix_def Unix_def)

lemma decode_sample_data:
  "length l4 = 4 \<Longrightarrow>
   DecodeLicenseData (currentVersion # l4 @ enc_body sample_data) = Inr sample_data"
  using decode_layout [OF sample_data_fits, of l4]
  by (simp add: sample_data_seconds) (simp add: sample_data_def unbound_def)

subsection \<open>Round trip\<close>

text \<open>
  C1 (as amended). For every payload all of whose lengths and counts fit 16 bits (the
  four strings, the five lists and every entry of the lists) and whose custom ids are
  empty or end in a non-empty string, \<open>EncodeLicenseData\<close> succeeds and
  \<open>DecodeLicenseData\<close> of its result is the payload with both times at second
  resolution.
\<close>

theorem roundtrip:
  assumes "fits16 d"
    and "CustomIDs (HardwareIDs d) = [] \<or> last (CustomIDs (HardwareIDs d)) \<noteq> []"
  shows "bindE (EncodeLicenseData d) DecodeLicenseData = Inr (to_seconds d)"
  using assms
  by (simp add: EncodeLicenseData_layout bindE_simps decode_layout length_put)

text \<open>The scenario payload satisfies both conditions and comes back unchanged.\<close>

theorem roundtrip_witness:
  "CustomIDs (HardwareIDs sample_data) = [] \<and>
   bindE (EncodeLicenseData sample_data) DecodeLicenseData = Inr sample_data"
proof -
  have c: "CustomIDs (HardwareIDs sample_data) = []"
    by (simp add: sample_data_def unbound_def)
  then have "CustomIDs (HardwareIDs sample_data) = [] \<or>
             last (CustomIDs (HardwareIDs sample_data)) \<noteq> []"
    by simp
  from roundtrip [OF sample_data_fits this] c show ?thesis
    by (simp add: sample_data_seconds)
qed

text \<open>
  C1 as stated bounds the four strings and the number of entries of the lists, and fails
  twice. A feature of 65536 bytes is written with length 0 and decoding succeeds with
  an empty feature; a last custom id that is empty makes the final \<open>Reader_Read\<close> start
  at the end of the input, and decoding fails with \<open>EOF\<close>.
\<close>

lemma decode_long_feature:
  "bindE (EncodeLicenseData sample_long_feature) DecodeLicenseData =
     Inr (sample_data\<lparr>Features := [[]]\<rparr>)"
proof -
  have zeros:
    "replicate 65536 (0::byte) @ enc_strings [] @ enc_strings [] @ enc_strings [] @
       enc_strings [] = replicate 65544 0"
    by (simp add: enc_strings_Nil replicate_add [symmetric])
  show ?thesis
    by (simp add: EncodeLicenseData_layout bindE_simps length_put
        DecodeLicenseData_def read_header_layout enc_body_def sample_long_feature_def
        sample_data_def unbound_def readString_enc put_nonempty enc_nonempty read_int64_put
        readStringSlice_long zeros readStringSlice_zeros [where r = "[]", simplified]
        time_Unix_def Unix_def get_put_int64)
qed

lemma decode_custom_empty:
  "bindE (EncodeLicenseData sample_custom_empty) DecodeLicenseData = Inl EOF"
  by (simp add: EncodeLicenseData_layout bindE_simps length_put
      DecodeLicenseData_def read_header_layout enc_body_def sample_custom_empty_def
      sample_data_def unbound_def readString_enc put_nonempty enc_nonempty read_int64_put
      readStringSlice_enc readStringSlice_empty_last)

theorem roundtrip_counterexample:
  "top_level_fits16 sample_long_feature \<and>
   bindE (EncodeLicenseData sample_long_feature) DecodeLicenseData =
     Inr (sample_data\<lparr>Features := [[]]\<rparr>) \<and>
   sample_data\<lparr>Features := [[]]\<rparr> \<noteq> to_seconds sample_long_feature \<and>
   top_level_fits16 sample_custom_empty \<and>
   bindE (EncodeLicenseData sample_custom_empty) DecodeLicenseData = Inl EOF"
proof -
  have "top_level_fits16 sample_long_feature"
    by (simp add: top_level_fits16_def sample_long_feature_def sample_data_def unbound_def)
  moreover have "sample_data\<lparr>Features := [[]]\<rparr> \<noteq> to_seconds sample_long_feature"
  proof
    assume "sample_data\<lparr>Features := [[]]\<rparr> = to_seconds sample_long_feature"
    then have "Features (sample_data\<lparr>Features := [[]]\<rparr>) =
               Features (to_seconds sample_long_feature)"
      by simp
    then have "length ([] :: byte list) = length (replicate 65536 (0::byte))"
      by (simp add: to_seconds_def sample_long_feature_def)
    then show False by simp
  qed
  moreover have "top_level_fits16 sample_custom_empty"
    by (simp add: top_level_fits16_def sample_custom_empty_def sample_data_def unbound_def)
  ultimately show ?thesis
    using decode_long_feature decode_custom_empty by simp
qed

subsection \<open>Lengths beyond 16 bits\<close>

lemma writeString_mod:
  "writeString buf s = buf @ le_bytes 2 (length s mod 65536) @ s"
  by (simp add: writeString_def put_uint16_def unat_of_nat)

lemma writeStringSlice_mod:
  "writeStringSlice buf xs =
     buf @ le_bytes 2 (length xs mod 65536) @ concat (map (writeString []) xs)"
proof -
  have "enc_string = writeString []"
    by (rule ext) (simp add: writeString_layout)
  then show ?thesis
    by (simp add: writeStringSlice_layout enc_strings_def put_uint16_def unat_of_nat)
qed

text \<open>
  C4 (as amended). \<open>EncodeLicenseData\<close> never returns an error: for every payload it
  returns the version byte, the body length and the body. \<open>writeString\<close> writes the
  length of the string modulo 65536 as the 16-bit field and then all bytes of the
  string, whatever its length; \<open>writeStringSlice\<close> writes the number of entries modulo
  65536 and then every entry.
\<close>

theorem encode_never_rejects:
  "EncodeLicenseData d =
     Inr (currentVersion # put_uint32 (of_nat (length (enc_body d))) @ enc_body d) \<and>
   writeString buf s = buf @ le_bytes 2 (length s mod 65536) @ s \<and>
   writeStringSlice buf xs =
     buf @ le_bytes 2 (length xs mod 65536) @ concat (map (writeString []) xs)"
  by (simp only: EncodeLicenseData_layout writeString_mod writeStringSlice_mod simp_thms)

lemma put_uint16_65536: "put_uint16 65536 = [0, 0]"
  by (simp add: put_uint16_def le_bytes_2)

text \<open>
  C4 as stated fails: the id of 65536 bytes is encoded without error, its length field
  (bytes 5 and 6 of the result) holds 0 and all of its bytes follow.
\<close>

theorem encode_long_id:
  "length (ID sample_long_id) = 65536 \<and>
   \<not> isl (EncodeLicenseData sample_long_id) \<and>
   take 2 (drop 5 (projr (EncodeLicenseData sample_long_id))) = [0, 0] \<and>
   length (projr (EncodeLicenseData sample_long_id)) = 65588"
  by (simp add: EncodeLicenseData_layout length_put sample_long_id_def sample_data_def
      unbound_def enc_body_def enc_string_def enc_strings_def put_uint16_numerals
      put_uint16_65536)

subsection \<open>Truncated input\<close>

lemma readStringSlice_short:
  "readStringSlice (put_uint16 1 @ put_uint16 2 @ [0x61]) = Inr ([[0x61, 0]], [])"
  by (simp add: readStringSlice_def readString_def read_uint16_put bindE_simps
      Reader_Read_def)

text \<open>
  C5, at the payload whose custom id \<^verbatim>\<open>ab\<close> ends the encoding: the payload round-trips,
  and its encoding without the last byte decodes without error, to a payload whose
  custom id is \<^verbatim>\<open>a\<close> followed by a zero byte. \<open>Reader_Read\<close> reports no error for a
  short read and \<open>readString\<close> does not look at the number of bytes read.
\<close>

theorem truncated_decode_succeeds:
  "bindE (EncodeLicenseData sample_custom_ab) DecodeLicenseData = Inr sample_custom_ab \<and>
   DecodeLicenseData (butlast (projr (EncodeLicenseData sample_custom_ab))) =
     Inr (sample_data\<lparr>HardwareIDs := unbound\<lparr>CustomIDs := [[0x61, 0]]\<rparr>\<rparr>)"
proof -
  have last_list:
    "butlast (enc_strings [[0x61, 0x62]]) = put_uint16 1 @ put_uint16 2 @ [0x61]"
    by (simp add: enc_strings_def enc_string_def butlast_append)
  have whole: "bindE (EncodeLicenseData sample_custom_ab) DecodeLicenseData =
               Inr sample_custom_ab"
    by (simp add: EncodeLicenseData_layout enc_body_def sample_custom_ab_def
        sample_data_def unbound_def DecodeLicenseData_def read_header_layout length_put
        bindE_simps readString_enc put_nonempty enc_nonempty read_int64_put
        readStringSlice_enc readStringSlice_enc [where r = "[]", simplified]
        time_Unix_def Unix_def)
  have "DecodeLicenseData (butlast (projr (EncodeLicenseData sample_custom_ab))) =
        Inr (sample_data\<lparr>HardwareIDs := unbound\<lparr>CustomIDs := [[0x61, 0]]\<rparr>\<rparr>)"
    by (simp add: EncodeLicenseData_layout enc_body_def butlast_append enc_nonempty
        put_nonempty sample_custom_ab_def sample_data_def unbound_def last_list
        DecodeLicenseData_def read_header_layout length_put bindE_simps readString_enc
        read_int64_put readStringSlice_enc readStringSlice_short time_Unix_def Unix_def)
  with whole show ?thesis by simp
qed

subsection \<open>The body length of the header\<close>

lemma DecodeLicenseData_length_field:
  assumes "length l4 = 4" and "length l4' = 4"
  shows "DecodeLicenseData (v # l4 @ body) = DecodeLicenseData (v # l4' @ body)"
  using assms
  by (simp add: DecodeLicenseData_def read_header_layout bindE_simps)

lemma split_header:
  assumes "5 \<le> length a"
  shows "a = a ! 0 # take 4 (tl a) @ drop 5 a"
  using assms by (cases a) simp_all

text \<open>
  C10. \<open>DecodeLicenseData\<close> does not use the body length it reads from the header: two
  inputs of the same length that agree on every byte outside offsets 1 to 4 both fail
  with the same error or both succeed with the same payload.
\<close>

theorem body_length_ignored:
  assumes "length a = length b"
    and "\<forall>i < length a. i \<notin> {1, 2, 3, 4} \<longrightarrow> a ! i = b ! i"
  shows "DecodeLicenseData a = DecodeLicenseData b"
proof (cases "length a < 5")
  case True
  with assms(1) show ?thesis
    by (simp add: DecodeLicenseData_def)
next
  case False
  then have la: "5 \<le> length a" and lb: "5 \<le> length b"
    using assms(1) by simp_all
  from la have "a \<noteq> []" by auto
  with assms(2) [rule_format, of 0] have v: "a ! 0 = b ! 0"
    by simp
  have body: "drop 5 a = drop 5 b"
  proof (rule nth_equalityI)
    show "length (drop 5 a) = length (drop 5 b)"
      using assms(1) by simp
  next
    fix i
    assume "i < length (drop 5 a)"
    then have "5 + i < length a" by simp
    with assms(2) have "a ! (5 + i) = b ! (5 + i)" by simp
    then show "drop 5 a ! i = drop 5 b ! i"
      using la lb by simp
  qed
  have "DecodeLicenseData a = DecodeLicenseData (a ! 0 # take 4 (tl a) @ drop 5 a)"
    using split_header [OF la] by simp
  also have "\<dots> = DecodeLicenseData (b ! 0 # take 4 (tl b) @ drop 5 b)"
    unfolding v body using la lb
    by (intro DecodeLicenseData_length_field) simp_all
  also have "\<dots> = DecodeLicenseData b"
    using split_header [OF lb] by simp
  finally show ?thesis .
qed

lemma le_bytes_4:
  "le_bytes 4 k =
     [of_nat k, of_nat (k div 256), of_nat (k div 256 div 256),
      of_nat (k div 256 div 256 div 256)]"
proof -
  have "(4::nat) = Suc (Suc (Suc (Suc 0)))" by simp
  then show ?thesis by (simp only: le_bytes.simps)
qed

lemma agree_outside_length:
  assumes "length l4 = 4" and "length l4' = 4"
  shows "\<forall>i < length (v # l4 @ body). i \<notin> {1, 2, 3, 4} \<longrightarrow>
           (v # l4 @ body) ! i = (v # l4' @ body) ! i"
  using assms by (auto simp add: nth_Cons' nth_append)

text \<open>
  The encoding of the scenario payload and the same bytes with every bit of the body
  length set: they differ, and both decode to the payload.
\<close>

theorem body_length_ignored_witness:
  "length (projr (EncodeLicenseData sample_data)) =
     length (currentVersion # [0xFF, 0xFF, 0xFF, 0xFF] @ enc_body sample_data) \<and>
   projr (EncodeLicenseData sample_data) \<noteq>
     currentVersion # [0xFF, 0xFF, 0xFF, 0xFF] @ enc_body sample_data \<and>
   DecodeLicenseData (projr (EncodeLicenseData sample_data)) =
     DecodeLicenseData (currentVersion # [0xFF, 0xFF, 0xFF, 0xFF] @ enc_body sample_data) \<and>
   DecodeLicenseData (currentVersion # [0xFF, 0xFF, 0xFF, 0xFF] @ enc_body sample_data) =
     Inr sample_data"
proof -
  let ?a = "projr (EncodeLicenseData sample_data)"
  let ?b = "currentVersion # [0xFF, 0xFF, 0xFF, 0xFF] @ enc_body sample_data"
  have a: "?a = currentVersion # put_uint32 (of_nat (length (enc_body sample_data))) @
             enc_body sample_data"
    by (simp add: EncodeLicenseData_layout)
  have len: "length ?a = length ?b"
    by (simp add: a length_put)
  have agree: "\<forall>i < length ?a. i \<notin> {1, 2, 3, 4} \<longrightarrow> ?a ! i = ?b ! i"
    unfolding a by (rule agree_outside_length) (simp_all add: length_put)
  have "length (enc_body sample_data) = 49"
    by (simp add: enc_body_def enc_string_def enc_strings_def sample_data_def unbound_def
        length_put)
  then have "put_uint32 (of_nat (length (enc_body sample_data))) = [49, 0, 0, 0]"
    by (simp add: put_uint32_def le_bytes_4)
  then have diff: "?a \<noteq> ?b"
    by (simp add: a)
  have b: "DecodeLicenseData ?b = Inr sample_data"
    by (rule decode_sample_data) simp
  from body_length_ignored [OF len agree] len diff b show ?thesis
    by simp
qed

section \<open>Properties of verification\<close>

lemma decode_layout_trailing:
  assumes "fits16 d"
    and "CustomIDs (HardwareIDs d) = [] \<or> last (CustomIDs (HardwareIDs d)) \<noteq> [] \<or> r \<noteq> []"
    and "length l4 = 4"
  shows "DecodeLicenseData (currentVersion # l4 @ enc_body d @ r) = Inr (to_seconds d)"
  using assms
  by (simp add: to_seconds_def DecodeLicenseData_def read_header_layout bindE_simps
      enc_body_def fits16_def readString_enc put_nonempty enc_nonempty read_int64_put
      readStringSlice_enc)

lemma ToLicenseData_FromLicenseData: "ToLicenseData (FromLicenseData d) = d"
  by (simp add: ToLicenseData_def FromLicenseData_def)

lemma ToLicenseData_Signature: "ToLicenseData (lic\<lparr>Signature := s\<rparr>) = ToLicenseData lic"
  by (simp add: ToLicenseData_def)

lemma LoadLicense_binary:
  assumes "length sig = 256" and "DecodeLicenseData p = Inr d"
  shows "LoadLicense js (Some (p @ sig)) = Inr ((FromLicenseData d)\<lparr>Signature := sig\<rparr>)"
  using assms
  by (simp add: LoadLicense_def DecodeLicense_def FromLicenseData_def Let_def)

lemma VerifySignature_reencodes:
  "VerifySignature js v lic = None \<longleftrightarrow>
     rsa_Verify v (projr (EncodeLicenseData (ToLicenseData lic))) (Signature lic) \<or>
     (\<exists>jsonData. Marshal js (lic\<lparr>Signature := []\<rparr>) = Some jsonData \<and>
        rsa_Verify v jsonData (Signature lic))"
proof -
  have obj: "EncodeLicense
      \<lparr>ID = ID lic, CustomerID = CustomerID lic, ProductID = ProductID lic,
       SerialNumber = SerialNumber lic, IssueDate = IssueDate lic,
       ExpiryDate = ExpiryDate lic, Features = Features lic,
       HardwareIDs =
         \<lparr>MACAddresses = MACAddresses (HardwareIDs lic),
          DiskIDs = DiskIDs (HardwareIDs lic),
          HostNames = HostNames (HardwareIDs lic),
          CustomIDs = CustomIDs (HardwareIDs lic)\<rparr>,
       Signature = []\<rparr> = EncodeLicenseData (ToLicenseData lic)"
    by (simp add: EncodeLicense_def ToLicenseData_def)
  show ?thesis
    by (auto simp add: VerifySignature_def Let_def obj EncodeLicenseData_layout
        split: option.splits)
qed


lemma contains_iff: "contains xs item \<longleftrightarrow> item \<in> set xs"
  by (induction xs) auto

lemma containsAny_inner_iff: "containsAny_inner s1 xs \<longleftrightarrow> s1 \<in> set xs"
  by (induction xs) auto

lemma containsAny_iff: "containsAny xs ys \<longleftrightarrow> set xs \<inter> set ys \<noteq> {}"
  by (induction xs) (auto simp add: containsAny_inner_iff)


lemma length_sample_signature: "length sample_signature = 256"
  by (simp add: sample_signature_def)

lemma encode_sample_data:
  "projr (EncodeLicenseData sample_data) =
     currentVersion # [49, 0, 0, 0] @ enc_body sample_data"
proof -
  have "length (enc_body sample_data) = 49"
    by (simp add: enc_body_def enc_string_def enc_strings_def sample_data_def unbound_def
        length_put)
  then show ?thesis
    by (simp add: EncodeLicenseData_layout put_uint32_def le_bytes_4)
qed

lemma GetHardwareInfo_M1_H2:
  "GetHardwareInfo machine_M1_H2 =
     Inr \<lparr>hw_MACAddresses = [sample_M1], hw_DiskIDs = [], Hostname = sample_H2, CPUInfo = []\<rparr>"
  by (simp add: GetHardwareInfo_def getMACAddresses_def machine_M1_H2_def machine_M1_H1_def
      loopback_def FlagUp_def FlagLoopback_def sample_M1_def)

lemma GetHardwareInfo_M1_H1:
  "GetHardwareInfo machine_M1_H1 =
     Inr \<lparr>hw_MACAddresses = [sample_M1], hw_DiskIDs = [], Hostname = sample_H1, CPUInfo = []\<rparr>"
  by (simp add: GetHardwareInfo_def getMACAddresses_def machine_M1_H1_def
      loopback_def FlagUp_def FlagLoopback_def sample_M1_def)

lemma GetHardwareInfo_loopback_only:
  "GetHardwareInfo machine_loopback_only = Inl (ErrGetMACAddresses ErrNoValidMAC)"
  by (simp add: GetHardwareInfo_def getMACAddresses_def machine_loopback_only_def
      machine_M1_H1_def loopback_def FlagUp_def FlagLoopback_def)

lemma bound_license_ids:
  "MACAddresses (HardwareIDs bound_license) = [sample_M1]"
  "DiskIDs (HardwareIDs bound_license) = []"
  "HostNames (HardwareIDs bound_license) = [sample_H1]"
  "ExpiryDate bound_license = at_expiry"
  by (simp_all add: bound_license_def bound_data_def FromLicenseData_def unbound_def
      sample_data_def at_expiry_def)

lemma hostnames_differ: "sample_H1 \<noteq> sample_H2"
  by (simp add: sample_H1_def sample_H2_def)

lemma VerifyHardwareBinding_bound_H2:
  "VerifyHardwareBinding machine_M1_H2 bound_license = Some ErrHostnameMismatch"
  using hostnames_differ
  by (simp add: VerifyHardwareBinding_def GetHardwareInfo_M1_H2 bound_license_ids)

lemma VerifyHardwareBinding_bound_H1:
  "VerifyHardwareBinding machine_M1_H1 bound_license = None"
  by (simp add: VerifyHardwareBinding_def GetHardwareInfo_M1_H1 bound_license_ids)

lemma unbound_license_ids: "HardwareIDs unbound_license = unbound"
  by (simp add: unbound_license_def FromLicenseData_def sample_data_def unbound_def)

lemma VerifySignature_bound:
  "VerifySignature json_stub
     (verifier_for (projr (EncodeLicenseData bound_data)) sample_signature) bound_license = None"
  by (simp add: VerifySignature_reencodes bound_license_def ToLicenseData_Signature
      ToLicenseData_FromLicenseData verifier_for_def)

lemma VerifyExpiry_bound:
  "VerifyExpiry at_expiry bound_license = None"
  "VerifyExpiry after_expiry bound_license = Some (ErrExpired at_expiry)"
  by (simp_all add: VerifyExpiry_def bound_license_ids After_def at_expiry_def
      after_expiry_def)


lemma VerifySignature_rejected:
  "VerifySignature json_stub (verifier_for [] []) bound_license = Some ErrInvalidSignature"
  by (simp add: VerifySignature_def Let_def EncodeLicense_def EncodeLicenseData_layout
      verifier_for_def json_stub_def)

subsection \<open>Order of the checks\<close>

text \<open>
  C2 (as amended). \<open>IsValid\<close> runs the checks in the order signature, hardware binding,
  expiry, and succeeds only if all three pass. A license whose signature fails gets the
  signature error whatever the machine and the clock are; a license whose signature
  verifies and whose hardware check fails gets the hardware error whether or not it has
  expired; only when both pass is the verdict that of the expiry check.
\<close>

theorem IsValid_order:
  "(IsValid js v m now lic = None \<longleftrightarrow>
      VerifySignature js v lic = None \<and> VerifyHardwareBinding m lic = None \<and>
      VerifyExpiry now lic = None) \<and>
   (VerifySignature js v lic = Some e \<longrightarrow> IsValid js v m now lic = Some e) \<and>
   (VerifySignature js v lic = None \<and> VerifyHardwareBinding m lic = Some e \<longrightarrow>
      IsValid js v m now lic = Some e) \<and>
   (VerifySignature js v lic = None \<and> VerifyHardwareBinding m lic = None \<longrightarrow>
      IsValid js v m now lic = VerifyExpiry now lic)"
  by (auto simp add: IsValid_def split: option.splits)

text \<open>
  The bound license on the machine with the wrong host name, one second after expiry;
  the same license under a key that rejects its signature; and the license on its own
  machine at the moment of expiry.
\<close>

theorem IsValid_order_witness:
  "VerifySignature json_stub
     (verifier_for (projr (EncodeLicenseData bound_data)) sample_signature) bound_license = None \<and>
   VerifyHardwareBinding machine_M1_H2 bound_license = Some ErrHostnameMismatch \<and>
   IsValid json_stub (verifier_for (projr (EncodeLicenseData bound_data)) sample_signature)
     machine_M1_H2 after_expiry bound_license = Some ErrHostnameMismatch \<and>
   VerifySignature json_stub (verifier_for [] []) bound_license = Some ErrInvalidSignature \<and>
   IsValid json_stub (verifier_for [] []) machine_M1_H1 at_expiry bound_license =
     Some ErrInvalidSignature \<and>
   VerifyHardwareBinding machine_M1_H1 bound_license = None \<and>
   IsValid json_stub (verifier_for (projr (EncodeLicenseData bound_data)) sample_signature)
     machine_M1_H1 at_expiry bound_license = None"
  using
    IsValid_order [of json_stub
      "verifier_for (projr (EncodeLicenseData bound_data)) sample_signature"
      machine_M1_H2 after_expiry bound_license ErrHostnameMismatch]
    IsValid_order [of json_stub "verifier_for [] []" machine_M1_H1 at_expiry bound_license
      ErrInvalidSignature]
    IsValid_order [of json_stub
      "verifier_for (projr (EncodeLicenseData bound_data)) sample_signature"
      machine_M1_H1 at_expiry bound_license ErrInvalidSignature]
  by (simp add: VerifySignature_bound VerifySignature_rejected VerifyExpiry_bound
      VerifyHardwareBinding_bound_H2 VerifyHardwareBinding_bound_H1)

text \<open>
  C2 as stated fails: for the bound license, signed, one second past its expiry and on
  the machine with the wrong host name, the verdict is the hardware error and not the
  expiry error.
\<close>

theorem IsValid_hardware_before_expiry:
  "VerifySignature json_stub
     (verifier_for (projr (EncodeLicenseData bound_data)) sample_signature) bound_license = None \<and>
   VerifyExpiry after_expiry bound_license = Some (ErrExpired at_expiry) \<and>
   VerifyHardwareBinding machine_M1_H2 bound_license = Some ErrHostnameMismatch \<and>
   IsValid json_stub (verifier_for (projr (EncodeLicenseData bound_data)) sample_signature)
     machine_M1_H2 after_expiry bound_license = Some ErrHostnameMismatch \<and>
   IsValid json_stub (verifier_for (projr (EncodeLicenseData bound_data)) sample_signature)
     machine_M1_H2 after_expiry bound_license \<noteq> VerifyExpiry after_expiry bound_license"
  by (simp add: IsValid_def VerifySignature_bound VerifyExpiry_bound
      VerifyHardwareBinding_bound_H2)

subsection \<open>What the signature is checked against\<close>

text \<open>
  C3 (as amended). For every license file whose payload bytes the binary decoder
  decodes, \<open>LoadLicense\<close> keeps the decoded value and the last 256 bytes and nothing
  else of the file, and \<open>VerifySignature\<close> checks the signature against the encoding
  that \<open>EncodeLicenseData\<close> produces for the decoded value and, if that fails, against
  its JSON form; it does not check it against the loaded payload bytes. Payload bytes
  that decode to the same value get the same verdict for the same signature.
\<close>

theorem signature_over_reencoding:
  assumes "length sig = 256" and "DecodeLicenseData p = Inr d"
  shows "LoadLicense js (Some (p @ sig)) = Inr ((FromLicenseData d)\<lparr>Signature := sig\<rparr>) \<and>
         (VerifySignature js v ((FromLicenseData d)\<lparr>Signature := sig\<rparr>) = None \<longleftrightarrow>
            rsa_Verify v (projr (EncodeLicenseData d)) sig \<or>
            (\<exists>jsonData. Marshal js (FromLicenseData d) = Some jsonData \<and>
               rsa_Verify v jsonData sig))"
proof -
  have "(FromLicenseData d)\<lparr>Signature := []\<rparr> = FromLicenseData d"
    by (simp add: FromLicenseData_def)
  then show ?thesis
    using LoadLicense_binary [OF assms, of js]
      VerifySignature_reencodes [of js v "(FromLicenseData d)\<lparr>Signature := sig\<rparr>"]
    by (simp add: ToLicenseData_Signature ToLicenseData_FromLicenseData)
qed


text \<open>
  The encoding of the scenario payload with the signature that the key
  \<open>verifier_for\<close> accepts for it.
\<close>

theorem signature_over_reencoding_witness:
  "length sample_signature = 256 \<and>
   DecodeLicenseData (projr (EncodeLicenseData sample_data)) = Inr sample_data \<and>
   LoadLicense json_stub (Some (projr (EncodeLicenseData sample_data) @ sample_signature)) =
     Inr ((FromLicenseData sample_data)\<lparr>Signature := sample_signature\<rparr>) \<and>
   VerifySignature json_stub
     (verifier_for (projr (EncodeLicenseData sample_data)) sample_signature)
     ((FromLicenseData sample_data)\<lparr>Signature := sample_signature\<rparr>) = None"
proof -
  have d: "DecodeLicenseData (projr (EncodeLicenseData sample_data)) = Inr sample_data"
    unfolding encode_sample_data by (rule decode_sample_data) simp
  show ?thesis
    using signature_over_reencoding [OF length_sample_signature d, of json_stub
        "verifier_for (projr (EncodeLicenseData sample_data)) sample_signature"]
      length_sample_signature d
    by (simp add: verifier_for_def)
qed

text \<open>
  C3 as stated fails. The encoding of the scenario payload with every bit of the body
  length set differs from the encoding, and the key accepts the signature for the
  encoding only; yet the file made of the altered bytes and that signature loads to the
  same license as the unaltered file, and its signature verifies.
\<close>

theorem signature_not_over_loaded_bytes:
  "currentVersion # [0xFF, 0xFF, 0xFF, 0xFF] @ enc_body sample_data \<noteq>
     projr (EncodeLicenseData sample_data) \<and>
   \<not> rsa_Verify (verifier_for (projr (EncodeLicenseData sample_data)) sample_signature)
       (currentVersion # [0xFF, 0xFF, 0xFF, 0xFF] @ enc_body sample_data) sample_signature \<and>
   LoadLicense json_stub
     (Some ((currentVersion # [0xFF, 0xFF, 0xFF, 0xFF] @ enc_body sample_data) @
            sample_signature)) = Inr unbound_license \<and>
   LoadLicense json_stub (Some (projr (EncodeLicenseData sample_data) @ sample_signature)) =
     Inr unbound_license \<and>
   VerifySignature json_stub
     (verifier_for (projr (EncodeLicenseData sample_data)) sample_signature)
     unbound_license = None"
proof -
  let ?p = "currentVersion # [0xFF, 0xFF, 0xFF, 0xFF] @ enc_body sample_data"
  let ?v = "verifier_for (projr (EncodeLicenseData sample_data)) sample_signature"
  have diff: "?p \<noteq> projr (EncodeLicenseData sample_data)"
    by (simp add: encode_sample_data)
  then have reject: "\<not> rsa_Verify ?v ?p sample_signature"
    by (simp add: verifier_for_def)
  have "DecodeLicenseData ?p = Inr sample_data"
    by (rule decode_sample_data) simp
  then have load: "LoadLicense json_stub (Some (?p @ sample_signature)) = Inr unbound_license"
    unfolding unbound_license_def
    by (rule LoadLicense_binary [OF length_sample_signature])
  have "DecodeLicenseData (projr (EncodeLicenseData sample_data)) = Inr sample_data"
    unfolding encode_sample_data by (rule decode_sample_data) simp
  then have load': "LoadLicense json_stub
      (Some (projr (EncodeLicenseData sample_data) @ sample_signature)) = Inr unbound_license"
    unfolding unbound_license_def
    by (rule LoadLicense_binary [OF length_sample_signature])
  have accept: "VerifySignature json_stub ?v unbound_license = None"
    by (simp add: VerifySignature_reencodes unbound_license_def ToLicenseData_Signature
        ToLicenseData_FromLicenseData verifier_for_def)
  from diff reject load load' accept show ?thesis
    by (intro conjI)
qed


subsection \<open>Length of the signature\<close>

lemma LoadLicense_long_signature:
  assumes "fits16 d" and "length l4 = 4"
  shows "LoadLicense js (Some ((currentVersion # l4 @ enc_body d) @ replicate 512 z)) =
         Inr ((FromLicenseData (to_seconds d))\<lparr>Signature := replicate 256 z\<rparr>)"
proof -
  have split: "(currentVersion # l4 @ enc_body d) @ replicate 512 z =
               (currentVersion # l4 @ enc_body d @ replicate 256 z) @ replicate 256 z"
    by (simp add: replicate_add [symmetric])
  have "DecodeLicenseData (currentVersion # l4 @ enc_body d @ replicate 256 z) =
        Inr (to_seconds d)"
    using assms by (intro decode_layout_trailing) simp_all
  then show ?thesis
    unfolding split by (intro LoadLicense_binary) simp_all
qed

text \<open>
  C6, at a key whose signatures have 512 bytes. \<open>GenerateLicense\<close> appends the 512
  bytes to the encoding; \<open>LoadLicense\<close> takes the last 256 bytes of the file as the
  signature and decodes the encoding followed by the first 256 bytes of the signature,
  which succeeds because the decoder ignores what follows the last list; the loaded
  signature is not the one issued, and verification fails under the key that accepts
  the issued one.
\<close>

theorem long_signature_split_wrongly:
  "GenerateLicense (ID sample_data) (CustomerID sample_data) (ProductID sample_data)
     (SerialNumber sample_data) (IssueDate sample_data) (ExpiryDate sample_data)
     (Features sample_data) (HardwareIDs sample_data) key4096 =
     Inr (projr (EncodeLicenseData sample_data) @ replicate 512 0x5A) \<and>
   LoadLicense json_stub (Some (projr (EncodeLicenseData sample_data) @ replicate 512 0x5A)) =
     Inr unbound_license \<and>
   length (Signature unbound_license) = 256 \<and>
   VerifySignature json_stub
     (verifier_for (projr (EncodeLicenseData sample_data)) (replicate 512 0x5A))
     unbound_license = Some ErrInvalidSignature"
proof -
  have obj: "ToLicenseData
      \<lparr>ID = ID sample_data, CustomerID = CustomerID sample_data,
       ProductID = ProductID sample_data, SerialNumber = SerialNumber sample_data,
       IssueDate = IssueDate sample_data, ExpiryDate = ExpiryDate sample_data,
       Features = Features sample_data,
       HardwareIDs =
         \<lparr>MACAddresses = MACAddresses (HardwareIDs sample_data),
          DiskIDs = DiskIDs (HardwareIDs sample_data),
          HostNames = HostNames (HardwareIDs sample_data),
          CustomIDs = CustomIDs (HardwareIDs sample_data)\<rparr>,
       Signature = []\<rparr> = sample_data"
    by (simp add: ToLicenseData_def)
  have gen: "GenerateLicense (ID sample_data) (CustomerID sample_data) (ProductID sample_data)
     (SerialNumber sample_data) (IssueDate sample_data) (ExpiryDate sample_data)
     (Features sample_data) (HardwareIDs sample_data) key4096 =
     Inr (projr (EncodeLicenseData sample_data) @ replicate 512 0x5A)"
    by (simp add: GenerateLicense_def EncodeLicense_def obj EncodeLicenseData_layout
        SignData_def key4096_def)
  have load: "LoadLicense json_stub
      (Some (projr (EncodeLicenseData sample_data) @ replicate 512 0x5A)) = Inr unbound_license"
    unfolding encode_sample_data unbound_license_def sample_signature_def
    using LoadLicense_long_signature [OF sample_data_fits, of "[49, 0, 0, 0]" json_stub "0x5A"]
    by (simp add: sample_data_seconds)
  have len: "length (Signature unbound_license) = 256"
    by (simp add: unbound_license_def sample_signature_def)
  have "replicate 256 (0x5A::byte) \<noteq> replicate 512 0x5A"
  proof
    assume "replicate 256 (0x5A::byte) = replicate 512 0x5A"
    then have "length (replicate 256 (0x5A::byte)) = length (replicate 512 (0x5A::byte))"
      by simp
    then show False by simp
  qed
  then have verdict: "VerifySignature json_stub
     (verifier_for (projr (EncodeLicenseData sample_data)) (replicate 512 0x5A))
     unbound_license = Some ErrInvalidSignature"
    by (simp add: VerifySignature_def Let_def unbound_license_def sample_signature_def
        FromLicenseData_def EncodeLicense_def ToLicenseData_def EncodeLicenseData_layout
        verifier_for_def json_stub_def)
  from gen load len verdict show ?thesis
    by (intro conjI)
qed


subsection \<open>Expiry\<close>



subsection \<open>Hardware binding\<close>

text \<open>
  C8. Hardware verification is a conjunction over the populated dimensions: when the
  MAC list and the host name list of a license are both non-empty, the check passes
  only if the hardware was detected, some MAC of the license is among the detected MACs
  and the detected host name is in the license's host name list. In particular a
  license naming the MAC \<open>M1\<close> and the host name \<open>H1\<close> fails on a machine whose detected
  MACs contain \<open>M1\<close> and whose host name is another name \<open>H2\<close>.
\<close>

theorem hardware_binding_conjunction:
  "(MACAddresses (HardwareIDs lic) \<noteq> [] \<and> HostNames (HardwareIDs lic) \<noteq> [] \<and>
    VerifyHardwareBinding m lic = None \<longrightarrow>
      (\<exists>hw. GetHardwareInfo m = Inr hw \<and>
         (\<exists>mac \<in> set (MACAddresses (HardwareIDs lic)). mac \<in> set (hw_MACAddresses hw)) \<and>
         Hostname hw \<in> set (HostNames (HardwareIDs lic)))) \<and>
   (MACAddresses (HardwareIDs lic) = [M1] \<and> HostNames (HardwareIDs lic) = [H1] \<and>
    GetHardwareInfo m = Inr hw' \<and> M1 \<in> set (hw_MACAddresses hw') \<and>
    Hostname hw' = H2 \<and> H1 \<noteq> H2 \<longrightarrow>
      VerifyHardwareBinding m lic \<noteq> None)"
  by (auto simp add: VerifyHardwareBinding_def contains_iff containsAny_iff
      split: sum.splits if_splits)


theorem hardware_binding_conjunction_witness:
  "MACAddresses (HardwareIDs bound_license) = [sample_M1] \<and>
   HostNames (HardwareIDs bound_license) = [sample_H1] \<and>
   GetHardwareInfo machine_M1_H2 =
     Inr \<lparr>hw_MACAddresses = [sample_M1], hw_DiskIDs = [], Hostname = sample_H2,
          CPUInfo = []\<rparr> \<and>
   sample_H1 \<noteq> sample_H2 \<and>
   VerifyHardwareBinding machine_M1_H2 bound_license \<noteq> None \<and>
   VerifyHardwareBinding machine_M1_H1 bound_license = None \<and>
   GetHardwareInfo machine_M1_H1 =
     Inr \<lparr>hw_MACAddresses = [sample_M1], hw_DiskIDs = [], Hostname = sample_H1,
          CPUInfo = []\<rparr>"
  using
    hardware_binding_conjunction [of bound_license machine_M1_H2 sample_M1 sample_H1
      "\<lparr>hw_MACAddresses = [sample_M1], hw_DiskIDs = [], Hostname = sample_H2, CPUInfo = []\<rparr>"
      sample_H2]
    hardware_binding_conjunction [of bound_license machine_M1_H1 sample_M1 sample_H1
      "\<lparr>hw_MACAddresses = [sample_M1], hw_DiskIDs = [], Hostname = sample_H1, CPUInfo = []\<rparr>"
      sample_H1]
    hostnames_differ
  by (simp add: bound_license_ids GetHardwareInfo_M1_H2 GetHardwareInfo_M1_H1
      VerifyHardwareBinding_bound_H1)

text \<open>
  A license whose four hardware lists are empty passes whenever \<open>GetHardwareInfo\<close>
  returns a \<open>HardwareInfo\<close>, whatever MAC addresses, disk ids and host name it holds.
\<close>

lemma unbound_passes_when_detected:
  assumes "MACAddresses (HardwareIDs lic) = []" and "DiskIDs (HardwareIDs lic) = []"
    and "HostNames (HardwareIDs lic) = []" and "CustomIDs (HardwareIDs lic) = []"
    and "GetHardwareInfo m = Inr hw"
  shows "VerifyHardwareBinding m lic = None"
  using assms by (simp add: VerifyHardwareBinding_def)

text \<open>
  C9, on a machine whose only interface is the loopback interface. The license has no
  binding at all, yet \<open>VerifyHardwareBinding\<close> asks for the hardware before it looks at
  the license: \<open>getMACAddresses\<close> finds no address, \<open>GetHardwareInfo\<close> returns its error
  and hardware verification fails with it. On the machine with an interface the same
  license passes.
\<close>

theorem unbound_fails_without_interface:
  "MACAddresses (HardwareIDs unbound_license) = [] \<and>
   DiskIDs (HardwareIDs unbound_license) = [] \<and>
   HostNames (HardwareIDs unbound_license) = [] \<and>
   CustomIDs (HardwareIDs unbound_license) = [] \<and>
   VerifyHardwareBinding machine_loopback_only unbound_license =
     Some (ErrHardwareInfo (ErrGetMACAddresses ErrNoValidMAC)) \<and>
   VerifyHardwareBinding machine_M1_H2 unbound_license = None"
proof -
  have ids: "MACAddresses (HardwareIDs unbound_license) = []"
    "DiskIDs (HardwareIDs unbound_license) = []"
    "HostNames (HardwareIDs unbound_license) = []"
    "CustomIDs (HardwareIDs unbound_license) = []"
    by (simp_all add: unbound_license_ids unbound_def)
  have "VerifyHardwareBinding machine_loopback_only unbound_license =
        Some (ErrHardwareInfo (ErrGetMACAddresses ErrNoValidMAC))"
    by (simp add: VerifyHardwareBinding_def GetHardwareInfo_loopback_only)
  with ids unbound_passes_when_detected [OF ids GetHardwareInfo_M1_H2] show ?thesis
    by simp
qed

end
